theory Spec2Isabelle
  imports Main
begin

section \<open>Entity model\<close>

text \<open>
  The declarations of \<^verbatim>\<open>Lecture\<close>, \<^verbatim>\<open>Meeting\<close> and \<^verbatim>\<open>Subject\<close> live in
  \<^verbatim>\<open>~/business\<close>, which is outside the source tree at hand. The worker reads the fields
  \<^verbatim>\<open>subject\<close>, \<^verbatim>\<open>title\<close> and \<^verbatim>\<open>lectures\<close> of a meeting and \<^verbatim>\<open>courseId\<close> and
  \<^verbatim>\<open>meetings\<close> of a subject; nothing else is ever inspected. The field set of a lecture is
  never inspected by the worker at all, so a lecture is a value of an arbitrary type \<open>'l\<close>.

  The element type of the lecture array is a parameter of the record: a well-typed meeting
  is a \<open>'l Meeting\<close>, while the arrays built by the diff can hold \<^verbatim>\<open>undefined\<close> slots and
  are \<open>'l option Meeting\<close> values (\<open>None\<close> is \<^verbatim>\<open>undefined\<close>, \<open>Some l\<close> a lecture).
\<close>

record 'a Meeting =
  subject :: string
  title :: string
  lectures :: "'a list"

record 'a Subject =
  courseId :: string
  meetings :: "'a Meeting list"

text \<open>
  A meeting that is copied verbatim into a diff keeps all its lectures; seen at the type of
  diff results every slot of its lecture array is defined.
\<close>

definition verbatim :: "'l Meeting \<Rightarrow> 'l option Meeting" where
  "verbatim m = \<lparr>subject = subject m, title = title m, lectures = map Some (lectures m)\<rparr>"

subsection \<open>JavaScript array primitives\<close>

text \<open>
  \<^verbatim>\<open>xs[i]\<close> evaluates to \<^verbatim>\<open>undefined\<close> when \<open>i\<close> is not an index of \<open>xs\<close>; it does not
  throw.
\<close>

definition at_index :: "'a list \<Rightarrow> nat \<Rightarrow> 'a option" where
  "at_index xs i = (if i < length xs then Some (xs ! i) else None)"

text \<open>\<^verbatim>\<open>xs.slice(start)\<close> and \<^verbatim>\<open>xs.slice(0, end)\<close> for non-negative arguments.\<close>

definition slice_from :: "'a list \<Rightarrow> nat \<Rightarrow> 'a list" where
  "slice_from xs start = drop start xs"

definition slice_upto :: "'a list \<Rightarrow> nat \<Rightarrow> 'a list" where
  "slice_upto xs end = take end xs"

subsection \<open>Thrown values\<close>

text \<open>
  A thrown value is either an \<^verbatim>\<open>Error\<close> instance with its message or some other value;
  \<^verbatim>\<open>err instanceof Error\<close> tells them apart. A computation that can throw has a result
  of a sum type: \<open>Inl\<close> the thrown value, \<open>Inr\<close> the value returned.
\<close>

datatype js_thrown = JsError string | JsOther

subsection \<open>Comparison helpers\<close>

text \<open>
  Modelled from the spec: \<^verbatim>\<open>compareLecture\<close> (imported from \<^verbatim>\<open>~/business/Lecture\<close>) is
  missing from the source tree. On two lectures the specification gives a full structural
  field comparison with no partial or fuzzy matching. Its first argument in the worker is
  always a lecture (line 74 reads the old list below its length); its second argument can
  be the \<^verbatim>\<open>undefined\<close> of an unguarded read (line 75). Neither the specification nor
  the source tree says what the helper does then: it may answer either way, or throw
  (reading a field of \<^verbatim>\<open>undefined\<close> throws a \<^verbatim>\<open>TypeError\<close>). That behaviour is the
  parameter \<open>onAbsent\<close>, a function of the lecture the absent value is compared with.
\<close>

definition compareLecture ::
  "('l \<Rightarrow> js_thrown + bool) \<Rightarrow> 'l \<Rightarrow> 'l option \<Rightarrow> js_thrown + bool" where
  "compareLecture onAbsent a b = (case b of Some y \<Rightarrow> Inr (a = y) | None \<Rightarrow> onAbsent a)"

text \<open>
  Modelled from the spec: \<^verbatim>\<open>compareMeeting\<close> (imported from \<^verbatim>\<open>~/business/Meeting\<close>) is
  missing from the source tree. The specification describes it as field equality across
  subject, title, and lecture-by-lecture equality. Both its arguments in the worker are
  meetings read below the length of their lists.
\<close>

definition compareMeeting :: "'l Meeting \<Rightarrow> 'l Meeting \<Rightarrow> bool" where
  "compareMeeting a b =
     (subject a = subject b \<and> title a = title b \<and>
      list_all2 (\<lambda>x y. x = y) (lectures a) (lectures b))"

section \<open>Diff engine (Worker.ts)\<close>

subsection \<open>\<^verbatim>\<open>#getLecturesDiff\<close>\<close>

text \<open>
  The \<^verbatim>\<open>for\<close> loop of lines 73--79, with the loop counter \<open>i\<close> and the accumulated
  \<open>result\<close> as arguments. The bound is the length of the old lecture list, so the read of
  the old list at \<open>i\<close> is in range; the read of the new list at \<open>i\<close> is unguarded. A
  throw of the comparison ends the loop and the method.
\<close>

function lecturesLoop ::
  "('l \<Rightarrow> js_thrown + bool) \<Rightarrow> 'l list \<Rightarrow> 'l list \<Rightarrow> nat \<Rightarrow> 'l option list
     \<Rightarrow> js_thrown + 'l option list" where
  "lecturesLoop onAbsent oldLectures newLectures i result =
     (if i < length oldLectures then
        (case compareLecture onAbsent (oldLectures ! i) (at_index newLectures i) of
           Inl err \<Rightarrow> Inl err
         | Inr isEqual \<Rightarrow>
             if isEqual
             then lecturesLoop onAbsent oldLectures newLectures (Suc i) result
             else lecturesLoop onAbsent oldLectures newLectures (Suc i)
                    (result @ [at_index newLectures i]))
      else Inr result)"
  by pat_completeness auto
termination
  by (relation "measure (\<lambda>(onAbsent, oldLectures, newLectures, i, result).
                           length oldLectures - i)")
     auto

declare lecturesLoop.simps [simp del]

definition getLecturesDiff ::
  "('l \<Rightarrow> js_thrown + bool) \<Rightarrow> 'l Meeting \<Rightarrow> 'l Meeting \<Rightarrow> js_thrown + 'l option list" where
  "getLecturesDiff onAbsent oldMeeting newMeeting =
     (let oldLength = length (lectures oldMeeting);
          newLength = length (lectures newMeeting);
          result = (if newLength > oldLength
                    then [] @ map Some (slice_from (lectures newMeeting) oldLength)
                    else [])
      in lecturesLoop onAbsent (lectures oldMeeting) (lectures newMeeting) 0 result)"

subsection \<open>\<^verbatim>\<open>#getMeetingsDiff\<close>\<close>

text \<open>
  The loop of lines 48--59. Its bound is the length of \<^verbatim>\<open>slicedMeetings\<close>, which is at
  most the length of the old meeting list, so both reads at \<open>i\<close> are in range. A throw of
  the lecture diff ends the loop and the method.
\<close>

function meetingsLoop ::
  "('l \<Rightarrow> js_thrown + bool) \<Rightarrow> 'l Meeting list \<Rightarrow> 'l Meeting list \<Rightarrow> nat
     \<Rightarrow> 'l option Meeting list \<Rightarrow> js_thrown + 'l option Meeting list" where
  "meetingsLoop onAbsent oldMeetings slicedMeetings i result =
     (if i < length slicedMeetings then
        (let newMeeting = slicedMeetings ! i;
             oldMeeting = oldMeetings ! i;
             isEqual = compareMeeting newMeeting oldMeeting
         in case getLecturesDiff onAbsent oldMeeting newMeeting of
              Inl err \<Rightarrow> Inl err
            | Inr lecturesDiff \<Rightarrow>
                if isEqual \<and> length lecturesDiff < 1
                then meetingsLoop onAbsent oldMeetings slicedMeetings (Suc i) result
                else meetingsLoop onAbsent oldMeetings slicedMeetings (Suc i)
                       (result @ [\<lparr>subject = subject newMeeting, title = title newMeeting,
                                    lectures = lecturesDiff\<rparr>]))
      else Inr result)"
  by pat_completeness auto
termination
  by (relation "measure (\<lambda>(onAbsent, oldMeetings, slicedMeetings, i, result).
                           length slicedMeetings - i)")
     auto

declare meetingsLoop.simps [simp del]

definition getMeetingsDiff ::
  "('l \<Rightarrow> js_thrown + bool) \<Rightarrow> 'l Subject \<Rightarrow> 'l Subject \<Rightarrow> js_thrown + 'l option Meeting list"
  where
  "getMeetingsDiff onAbsent oldSubject newSubject =
     (let oldLength = length (meetings oldSubject);
          newLength = length (meetings newSubject);
          result = (if newLength > oldLength
                    then [] @ map verbatim (slice_from (meetings newSubject) oldLength)
                    else []);
          slicedMeetings = slice_upto (meetings newSubject) oldLength
      in meetingsLoop onAbsent (meetings oldSubject) slicedMeetings 0 result)"

text \<open>
  Two derived notions of the loop body, used to state what the loop computes, for a new
  meeting and the lecture diff computed for it: the object pushed at lines 54--58, and the
  negation of the \<^verbatim>\<open>continue\<close> condition of line 53.
\<close>

definition changedMeeting :: "'l Meeting \<Rightarrow> 'l option list \<Rightarrow> 'l option Meeting" where
  "changedMeeting newMeeting lecturesDiff =
     \<lparr>subject = subject newMeeting, title = title newMeeting, lectures = lecturesDiff\<rparr>"

definition isChanged :: "'l Meeting \<Rightarrow> 'l Meeting \<Rightarrow> 'l option list \<Rightarrow> bool" where
  "isChanged oldMeeting newMeeting lecturesDiff =
     (\<not> (compareMeeting newMeeting oldMeeting \<and> length lecturesDiff < 1))"

subsection \<open>The ordering the specification describes\<close>

text \<open>
  The specification describes the result of the meetings diff as the changed and the new
  meetings in ascending index order. This definition follows those words, not the code:
  it walks the indices of the new meeting list upwards and emits, at an index with an old
  counterpart, the changed meeting if there is a change, and at an index without one the
  new meeting as it is. Like the code it throws what the first throwing lecture diff
  throws.
\<close>

definition meetingsDiff_ascending ::
  "('l \<Rightarrow> js_thrown + bool) \<Rightarrow> 'l Subject \<Rightarrow> 'l Subject \<Rightarrow> js_thrown + 'l option Meeting list"
  where
  "meetingsDiff_ascending onAbsent oldSubject newSubject =
     (case find (\<lambda>j. isl (getLecturesDiff onAbsent (meetings oldSubject ! j)
                            (meetings newSubject ! j)))
             [0..<min (length (meetings oldSubject)) (length (meetings newSubject))] of
        Some j \<Rightarrow>
          Inl (projl (getLecturesDiff onAbsent (meetings oldSubject ! j)
                        (meetings newSubject ! j)))
      | None \<Rightarrow>
          Inr (concat (map
            (\<lambda>j. if j < length (meetings oldSubject)
                 then (if isChanged (meetings oldSubject ! j) (meetings newSubject ! j)
                            (projr (getLecturesDiff onAbsent (meetings oldSubject ! j)
                                      (meetings newSubject ! j)))
                       then [changedMeeting (meetings newSubject ! j)
                               (projr (getLecturesDiff onAbsent (meetings oldSubject ! j)
                                         (meetings newSubject ! j)))]
                       else [])
                 else [verbatim (meetings newSubject ! j)])
            [0..<length (meetings newSubject)])))"

section \<open>Effects: collaborator calls, exceptions, traces\<close>

text \<open>
  Every collaborator (storage, webhook, logger, browser, page, collector) is external. A
  run is modelled as the list of collaborator calls it makes, in program order, together
  with its outcome: \<open>Inr\<close> a value when the promise resolves, \<open>Inl\<close> the thrown value when
  it rejects. What a collaborator answers to a call is a parameter of the model.
\<close>

definition resolved :: "'a \<Rightarrow> 'e list \<times> ('x + 'a)" where
  "resolved v = ([], Inr v)"

definition rejected :: "'x \<Rightarrow> 'e list \<times> ('x + 'a)" where
  "rejected err = ([], Inl err)"

text \<open>An awaited collaborator call: the call is made, then its answer is the outcome.\<close>

definition call :: "'e \<Rightarrow> ('x + 'a) \<Rightarrow> 'e list \<times> ('x + 'a)" where
  "call ev answer = ([ev], answer)"

text \<open>Sequencing: the rest runs only if the first part did not throw.\<close>

definition andThen ::
  "'e list \<times> ('x + 'a) \<Rightarrow> ('a \<Rightarrow> 'e list \<times> ('x + 'b)) \<Rightarrow> 'e list \<times> ('x + 'b)" where
  "andThen m rest =
     (case m of
        (trace, Inl err) \<Rightarrow> (trace, Inl err)
      | (trace, Inr v) \<Rightarrow> (case rest v of (trace', outcome) \<Rightarrow> (trace @ trace', outcome)))"

text \<open>\<^verbatim>\<open>try { m } catch (err) { handler }\<close>.\<close>

definition tryCatch ::
  "'e list \<times> ('x + 'a) \<Rightarrow> ('x \<Rightarrow> 'e list \<times> ('x + 'a)) \<Rightarrow> 'e list \<times> ('x + 'a)" where
  "tryCatch m handler =
     (case m of
        (trace, Inl err) \<Rightarrow> (case handler err of (trace', outcome) \<Rightarrow> (trace @ trace', outcome))
      | (trace, Inr v) \<Rightarrow> (trace, Inr v))"

section \<open>Orchestrator: the per-Subject task of \<^verbatim>\<open>Worker.handle\<close>\<close>

datatype 'l WorkerEvent =
    KV_get string
  | KV_put string string
  | Logger_error string
  | Webhook_error string
  | Webhook_notify "'l option Subject"

text \<open>
  The answers of the worker's collaborators. \<^verbatim>\<open>HYSBYSU_STORAGE.get\<close> answers a string or
  \<^verbatim>\<open>null\<close> (\<open>None\<close>). \<^verbatim>\<open>JSON.parse\<close> can throw, and can produce \<^verbatim>\<open>null\<close>; any other
  value is taken at the type the cast \<^verbatim>\<open>as Subject\<close> gives it. The logger's sinks return
  nothing and are taken not to throw. The last field is not a collaborator: it is what the
  missing \<^verbatim>\<open>compareLecture\<close> does with an absent second argument.
\<close>

record 'l WorkerDeps =
  HYSBYSU_STORAGE_get :: "string \<Rightarrow> js_thrown + string option"
  HYSBYSU_STORAGE_put :: "string \<Rightarrow> string \<Rightarrow> js_thrown + unit"
  webhook_error :: "string \<Rightarrow> js_thrown + unit"
  webhook_notify :: "'l option Subject \<Rightarrow> js_thrown + unit"
  JSON_parse :: "string \<Rightarrow> js_thrown + 'l Subject option"
  JSON_stringify :: "'l Subject \<Rightarrow> string"
  compareLecture_onAbsent :: "'l \<Rightarrow> js_thrown + bool"

definition subjectKey :: "'l Subject \<Rightarrow> string" where
  "subjectKey subj = ''subject_'' @ courseId subj"

text \<open>Lines 92--104: the lookup of the old snapshot inside its \<^verbatim>\<open>try\<close>/\<^verbatim>\<open>catch\<close>.\<close>

definition getOldSubjectString ::
  "'l WorkerDeps \<Rightarrow> 'l Subject \<Rightarrow> 'l WorkerEvent list \<times> (js_thrown + string option)" where
  "getOldSubjectString deps subj =
     tryCatch
       (call (KV_get (subjectKey subj)) (HYSBYSU_STORAGE_get deps (subjectKey subj)))
       (\<lambda>err. case err of
          JsError message \<Rightarrow>
            andThen (call (Logger_error message) (Inr ()))
              (\<lambda>_. andThen
                 (call (Webhook_error (''Failed to get old data for: '' @ courseId subj @
                                        ''. Reason: '' @ message))
                    (webhook_error deps (''Failed to get old data for: '' @ courseId subj @
                                          ''. Reason: '' @ message)))
                 (\<lambda>_. resolved None))
        | JsOther \<Rightarrow> resolved None)"

text \<open>
  Lines 108--120: the diff and the change notification. A throw of the diff is a throw of
  the task: nothing catches it here.
\<close>

definition notifyChanges ::
  "'l WorkerDeps \<Rightarrow> 'l Subject \<Rightarrow> 'l Subject option \<Rightarrow> 'l WorkerEvent list \<times> (js_thrown + unit)"
  where
  "notifyChanges deps subj oldSubject =
     (case oldSubject of
        None \<Rightarrow> resolved ()
      | Some old \<Rightarrow>
          if length (meetings subj) > 0 \<and> length (meetings old) > 0 then
            (case getMeetingsDiff (compareLecture_onAbsent deps) old subj of
               Inl err \<Rightarrow> rejected err
             | Inr meetingsDiff \<Rightarrow>
                 if length meetingsDiff > 0
                 then call (Webhook_notify \<lparr>courseId = courseId subj, meetings = meetingsDiff\<rparr>)
                        (webhook_notify deps
                           \<lparr>courseId = courseId subj, meetings = meetingsDiff\<rparr>)
                 else resolved ())
          else resolved ())"

text \<open>Lines 122--131: the write of the new snapshot inside its \<^verbatim>\<open>try\<close>/\<^verbatim>\<open>catch\<close>.\<close>

definition putNewSubject ::
  "'l WorkerDeps \<Rightarrow> 'l Subject \<Rightarrow> 'l WorkerEvent list \<times> (js_thrown + unit)" where
  "putNewSubject deps subj =
     tryCatch
       (call (KV_put (subjectKey subj) (JSON_stringify deps subj))
          (HYSBYSU_STORAGE_put deps (subjectKey subj) (JSON_stringify deps subj)))
       (\<lambda>err. case err of
          JsError message \<Rightarrow>
            andThen (call (Logger_error message) (Inr ()))
              (\<lambda>_. call (Webhook_error (''Failed to save new data for: '' @ courseId subj @
                                         ''. Reason: '' @ message))
                     (webhook_error deps (''Failed to save new data for: '' @ courseId subj @
                                           ''. Reason: '' @ message)))
        | JsOther \<Rightarrow> resolved ())"

text \<open>
  Lines 91--132: the asynchronous closure mapped over the collected subjects; \<open>subj\<close> is
  its parameter \<^verbatim>\<open>subject\<close>. Line 105
  returns when \<^verbatim>\<open>oldSubjectString\<close> is \<^verbatim>\<open>null\<close>.
\<close>

definition diffingTask ::
  "'l WorkerDeps \<Rightarrow> 'l Subject \<Rightarrow> 'l WorkerEvent list \<times> (js_thrown + unit)" where
  "diffingTask deps subj =
     andThen (getOldSubjectString deps subj)
       (\<lambda>oldSubjectString.
          case oldSubjectString of
            None \<Rightarrow> resolved ()
          | Some str \<Rightarrow>
              andThen ([], JSON_parse deps str)
                (\<lambda>oldSubject.
                   andThen (notifyChanges deps subj oldSubject)
                     (\<lambda>_. putNewSubject deps subj)))"

text \<open>
  The tasks of one run, one per collected subject. They run concurrently; each has its own
  trace, and nothing is said about how the traces interleave.
\<close>

definition diffingTasks ::
  "'l WorkerDeps \<Rightarrow> 'l Subject list \<Rightarrow> ('l WorkerEvent list \<times> (js_thrown + unit)) list" where
  "diffingTasks deps subjects = map (diffingTask deps) subjects"

section \<open>Session acquisition: the \<^verbatim>\<open>Scraper\<close> class\<close>

text \<open>
  The errors the scraper's methods end with: its own two error classes, each carrying the
  name it was constructed with, or whatever a collaborator threw.
\<close>

datatype ScraperError =
    ValidationError string
  | NotInitializedError string
  | Thrown js_thrown

type_synonym page = nat

datatype ScraperEvent =
    Browser_getFirstPage
  | Browser_newPage
  | Page_visit page string
  | Page_insert page string string
  | Page_clickButton page string bool
  | Page_getAttributesFromElements page string string
  | Page_getContent page
  | Page_close page
  | Collector_collect string
  | Storage_put string string

record ScraperOptions =
  siakadUrl :: string
  lmsUrl :: string
  nim :: string
  password :: string

text \<open>
  The answers of the scraper's collaborators (\<^verbatim>\<open>ScraperDeps\<close>) and of the clock. A page
  handle is a number. \<open>'m\<close> is the type of what the collector returns. Each task of
  \<^verbatim>\<open>savePageSnapshots\<close> opens one page; \<open>browser_newPage\<close> gives the answer to the call
  made by the task of a given URL. The scraper calls \<^verbatim>\<open>put\<close> on its storage; the one
  \<^verbatim>\<open>IStorage\<close> declaration in the source tree lists \<^verbatim>\<open>get\<close> and \<^verbatim>\<open>set\<close>. Like every
  collaborator call here, \<open>storage_put\<close> may answer with a thrown value.
\<close>

record 'm ScraperDeps =
  browser_getFirstPage :: "js_thrown + page"
  browser_newPage :: "string \<Rightarrow> js_thrown + page"
  page_visit :: "page \<Rightarrow> string \<Rightarrow> js_thrown + unit"
  page_insert :: "page \<Rightarrow> string \<Rightarrow> string \<Rightarrow> js_thrown + unit"
  page_clickButton :: "page \<Rightarrow> string \<Rightarrow> bool \<Rightarrow> js_thrown + unit"
  page_getAttributesFromElements :: "page \<Rightarrow> string \<Rightarrow> string \<Rightarrow> js_thrown + string list"
  page_getContent :: "page \<Rightarrow> js_thrown + string"
  page_close :: "page \<Rightarrow> js_thrown + unit"
  collector_collect :: "string \<Rightarrow> js_thrown + 'm"
  stringify :: "'m \<Rightarrow> string"
  storage_put :: "string \<Rightarrow> string \<Rightarrow> js_thrown + unit"
  Date_now :: nat

text \<open>
  The private fields of a constructed scraper; \<^verbatim>\<open>_page\<close> is written \<open>p_page\<close>, and so
  on. The collaborators are fixed at construction and are the \<open>deps\<close> argument of each
  method below.
\<close>

record Scraper =
  p_siakadUrl :: string
  p_lmsUrl :: string
  p_nim :: string
  p_password :: string
  p_page :: "page option"

definition USERNAME_INPUT :: string where
  "USERNAME_INPUT = ''input[name=\"username\"]''"

definition PASSWORD_INPUT :: string where
  "PASSWORD_INPUT = ''input[name=\"password\"]''"

definition LOGIN_BUTTON :: string where
  "LOGIN_BUTTON = ''button[type=\"submit\"]''"

definition LECTURE_URL :: string where
  "LECTURE_URL = ''.gallery_grid_item.md-card-content a''"

text \<open>A collaborator's answer, as an outcome of a scraper method.\<close>

definition answer :: "js_thrown + 'a \<Rightarrow> ScraperError + 'a" where
  "answer r = (case r of Inl err \<Rightarrow> Inl (Thrown err) | Inr v \<Rightarrow> Inr v)"

text \<open>Lines 42--57. The constructor assigns fields and calls nothing.\<close>

definition Scraper_constructor ::
  "ScraperOptions \<Rightarrow> ScraperEvent list \<times> (ScraperError + Scraper)" where
  "Scraper_constructor options =
     (if length (siakadUrl options) = 0 then rejected (ValidationError ''siakadUrl'')
      else if length (lmsUrl options) = 0 then rejected (ValidationError ''lmsUrl'')
      else if length (nim options) = 0 then rejected (ValidationError ''nim'')
      else if length (password options) = 0 then rejected (ValidationError ''password'')
      else resolved \<lparr>p_siakadUrl = siakadUrl options, p_lmsUrl = lmsUrl options,
                     p_nim = nim options, p_password = password options, p_page = None\<rparr>)"

text \<open>Lines 62--65. The method's result here is the scraper after the call.\<close>

definition init :: "'m ScraperDeps \<Rightarrow> Scraper \<Rightarrow> ScraperEvent list \<times> (ScraperError + Scraper)"
  where
  "init deps this =
     (case p_page this of
        Some _ \<Rightarrow> resolved this
      | None \<Rightarrow>
          andThen (call Browser_getFirstPage (answer (browser_getFirstPage deps)))
            (\<lambda>pg. resolved (this\<lparr>p_page := Some pg\<rparr>)))"

text \<open>Lines 88--95.\<close>

definition login :: "'m ScraperDeps \<Rightarrow> Scraper \<Rightarrow> ScraperEvent list \<times> (ScraperError + unit)"
  where
  "login deps this =
     (case p_page this of
        None \<Rightarrow> rejected (NotInitializedError ''this._page'')
      | Some pg \<Rightarrow>
          andThen (call (Page_visit pg (p_siakadUrl this))
                     (answer (page_visit deps pg (p_siakadUrl this))))
            (\<lambda>_. andThen (call (Page_insert pg USERNAME_INPUT (p_nim this))
                             (answer (page_insert deps pg USERNAME_INPUT (p_nim this))))
               (\<lambda>_. andThen (call (Page_insert pg PASSWORD_INPUT (p_password this))
                                (answer (page_insert deps pg PASSWORD_INPUT (p_password this))))
                  (\<lambda>_. call (Page_clickButton pg LOGIN_BUTTON False)
                          (answer (page_clickButton deps pg LOGIN_BUTTON False))))))"

subsection \<open>\<^verbatim>\<open>savePageSnapshots\<close>\<close>

text \<open>
  The template literal renders the number \<^verbatim>\<open>Date.now()\<close>, a non-negative integer, in
  decimal.
\<close>

definition digit :: "nat \<Rightarrow> char" where
  "digit d = ''0123456789'' ! d"

function decimal :: "nat \<Rightarrow> string" where
  "decimal n = (if n < 10 then [digit n] else decimal (n div 10) @ [digit (n mod 10)])"
  by pat_completeness auto
termination
  by (relation "measure (\<lambda>n. n)") auto

declare decimal.simps [simp del]

text \<open>
  \<^verbatim>\<open>url.slice(-4)\<close>: the last four characters, or the whole string when it is shorter
  (the subtraction on \<open>nat\<close> stops at \<open>0\<close>, as the start index of \<^verbatim>\<open>slice\<close> does).
\<close>

definition slice_last4 :: "string \<Rightarrow> string" where
  "slice_last4 url = drop (length url - 4) url"

definition snapshotKey :: "nat \<Rightarrow> string \<Rightarrow> string" where
  "snapshotKey timestamp url = decimal timestamp @ ''_'' @ slice_last4 url"

text \<open>
  Lines 115--122: the task of one URL. The collector's call is synchronous; it is in the
  trace like the awaited calls.
\<close>

definition snapshotTask ::
  "'m ScraperDeps \<Rightarrow> Scraper \<Rightarrow> nat \<Rightarrow> string \<Rightarrow> ScraperEvent list \<times> (ScraperError + unit)"
  where
  "snapshotTask deps this timestamp url =
     andThen (call Browser_newPage (answer (browser_newPage deps url)))
       (\<lambda>pg. andThen (call (Page_visit pg (p_lmsUrl this @ url))
                        (answer (page_visit deps pg (p_lmsUrl this @ url))))
          (\<lambda>_. andThen (call (Page_getContent pg) (answer (page_getContent deps pg)))
             (\<lambda>html. andThen (call (Collector_collect html) (answer (collector_collect deps html)))
                (\<lambda>meetings. andThen
                   (call (Storage_put (snapshotKey timestamp url) (stringify deps meetings))
                      (answer (storage_put deps (snapshotKey timestamp url)
                                 (stringify deps meetings))))
                   (\<lambda>_. call (Page_close pg) (answer (page_close deps pg)))))))"

text \<open>
  \<^verbatim>\<open>await Promise.all(tasks)\<close> on tasks that are already running: it resolves when every
  task resolved, and rejects as soon as one task rejects, with that task's reason. Which
  task rejects first in time is not determined here, so a rejection carries the reasons of
  all the tasks that reject: the promise rejects with one of them.
\<close>

definition Promise_all :: "('e list \<times> ('x + unit)) list \<Rightarrow> 'x list + unit" where
  "Promise_all tasks =
     (if list_ex (\<lambda>task. isl (snd task)) tasks
      then Inl (map (\<lambda>task. projl (snd task)) (filter (\<lambda>task. isl (snd task)) tasks))
      else Inr ())"

text \<open>
  Lines 109--124. \<^verbatim>\<open>this._browser\<close> is assigned once, by the constructor, from a
  required dependency, so the guard of line 110 never fires; the guard of line 111 does.
  The result has three parts: the calls made before the tasks start; the tasks, one per
  URL in the order of the URLs, each with its own trace and outcome (they run
  concurrently, and nothing is said about how their traces interleave); and the outcome
  of the method, \<open>Inr\<close> when it resolves and \<open>Inl\<close> the possible reasons when it rejects. A
  failing guard or a failing read of the links rejects with that one reason before any
  task starts; after that the outcome is that of \<^verbatim>\<open>Promise.all\<close>.
\<close>

definition savePageSnapshots ::
  "'m ScraperDeps \<Rightarrow> Scraper \<Rightarrow>
     ScraperEvent list \<times> (ScraperEvent list \<times> (ScraperError + unit)) list \<times>
       (ScraperError list + unit)"
  where
  "savePageSnapshots deps this =
     (case p_page this of
        None \<Rightarrow> ([], [], Inl [NotInitializedError ''this._page''])
      | Some pg \<Rightarrow>
          (case answer (page_getAttributesFromElements deps pg LECTURE_URL ''href'') of
             Inl err \<Rightarrow> ([Page_getAttributesFromElements pg LECTURE_URL ''href''], [], Inl [err])
           | Inr urls \<Rightarrow>
               ([Page_getAttributesFromElements pg LECTURE_URL ''href''],
                map (snapshotTask deps this (Date_now deps)) urls,
                Promise_all (map (snapshotTask deps this (Date_now deps)) urls))))"

section \<open>Concrete inputs\<close>

text \<open>
  Snapshots of one course, with a lecture identified by its title. \<open>ex_subject_old\<close> is
  the stored snapshot; the others are what a later run may collect: a third meeting is
  appended, the lecture of the first meeting is retitled, or both.
\<close>

definition ex_meeting1 :: "string Meeting" where
  "ex_meeting1 = \<lparr>subject = ''Algorithms'', title = ''Meeting 1'', lectures = [''Week 1'']\<rparr>"

definition ex_meeting1_updated :: "string Meeting" where
  "ex_meeting1_updated =
     \<lparr>subject = ''Algorithms'', title = ''Meeting 1'', lectures = [''Week 1 (updated)'']\<rparr>"

definition ex_meeting2 :: "string Meeting" where
  "ex_meeting2 = \<lparr>subject = ''Algorithms'', title = ''Meeting 2'', lectures = [''Week 2'']\<rparr>"

definition ex_meeting3 :: "string Meeting" where
  "ex_meeting3 =
     \<lparr>subject = ''Algorithms'', title = ''Meeting 3'',
      lectures = [''Week 3 slides'', ''Week 3 quiz'']\<rparr>"

definition ex_meeting3_updated :: "string Meeting" where
  "ex_meeting3_updated =
     \<lparr>subject = ''Algorithms'', title = ''Meeting 3'',
      lectures = [''Week 3 slides'', ''Week 3 quiz (due Friday)'']\<rparr>"

definition ex_meeting3_shrunk :: "string Meeting" where
  "ex_meeting3_shrunk =
     \<lparr>subject = ''Algorithms'', title = ''Meeting 3'', lectures = [''Week 3 slides'']\<rparr>"

text \<open>The third meeting with its first lecture replaced and a third lecture appended.\<close>

definition ex_meeting3_grown :: "string Meeting" where
  "ex_meeting3_grown =
     \<lparr>subject = ''Algorithms'', title = ''Meeting 3'',
      lectures = [''Week 3 slides (v2)'', ''Week 3 quiz'', ''Week 3 notes'']\<rparr>"

text \<open>
  Two ways the missing \<^verbatim>\<open>compareLecture\<close> may treat an absent second argument: a
  comparison that reads a field of that argument, which throws a \<^verbatim>\<open>TypeError\<close> on
  \<^verbatim>\<open>undefined\<close>, and a comparison that answers that the two differ.
\<close>

definition ex_absent_throws :: "string \<Rightarrow> js_thrown + bool" where
  "ex_absent_throws a =
     Inl (JsError ''TypeError: Cannot read properties of undefined'')"

definition ex_absent_unequal :: "string \<Rightarrow> js_thrown + bool" where
  "ex_absent_unequal a = Inr False"

definition ex_subject_old :: "string Subject" where
  "ex_subject_old = \<lparr>courseId = ''CS101'', meetings = [ex_meeting1, ex_meeting2]\<rparr>"

definition ex_subject_grown :: "string Subject" where
  "ex_subject_grown =
     \<lparr>courseId = ''CS101'', meetings = [ex_meeting1, ex_meeting2, ex_meeting3]\<rparr>"

definition ex_subject_retitled :: "string Subject" where
  "ex_subject_retitled =
     \<lparr>courseId = ''CS101'', meetings = [ex_meeting1_updated, ex_meeting2]\<rparr>"

definition ex_subject_grown_retitled :: "string Subject" where
  "ex_subject_grown_retitled =
     \<lparr>courseId = ''CS101'', meetings = [ex_meeting1_updated, ex_meeting2, ex_meeting3]\<rparr>"

text \<open>
  Collaborators of the worker that all succeed: the store holds a snapshot for
  \<^verbatim>\<open>subject_CS101\<close> only, which parses to \<open>ex_subject_old\<close>. The serializer is a
  stand-in for \<^verbatim>\<open>JSON.stringify\<close>.
\<close>

definition ex_worker_deps :: "string WorkerDeps" where
  "ex_worker_deps =
     \<lparr>HYSBYSU_STORAGE_get =
        (\<lambda>key. if key = ''subject_CS101'' then Inr (Some ''stored CS101'') else Inr None),
      HYSBYSU_STORAGE_put = (\<lambda>key v. Inr ()),
      webhook_error = (\<lambda>message. Inr ()),
      webhook_notify = (\<lambda>payload. Inr ()),
      JSON_parse = (\<lambda>str. Inr (Some ex_subject_old)),
      JSON_stringify = (\<lambda>s. ''snapshot of '' @ courseId s),
      compareLecture_onAbsent = ex_absent_throws\<rparr>"

text \<open>The same, with a store whose \<^verbatim>\<open>get\<close> throws.\<close>

definition ex_worker_deps_get_throws :: "string WorkerDeps" where
  "ex_worker_deps_get_throws =
     ex_worker_deps\<lparr>HYSBYSU_STORAGE_get := (\<lambda>key. Inl (JsError ''KV unavailable''))\<rparr>"

text \<open>The same, with a webhook whose \<^verbatim>\<open>notify\<close> throws.\<close>

definition ex_worker_deps_notify_throws :: "string WorkerDeps" where
  "ex_worker_deps_notify_throws =
     ex_worker_deps\<lparr>webhook_notify := (\<lambda>payload. Inl (JsError ''webhook down''))\<rparr>"

text \<open>
  A scraper as the constructor leaves it, and collaborators that all succeed: the landing
  page lists one lecture link, whose page the collector turns into one meeting. The
  serializer is a stand-in for \<^verbatim>\<open>JSON.stringify\<close> on an array.
\<close>

definition ex_options :: ScraperOptions where
  "ex_options =
     \<lparr>siakadUrl = ''https://siakad.example'', lmsUrl = ''https://lms.example'',
      nim = ''1234567'', password = ''secret''\<rparr>"

definition ex_scraper :: Scraper where
  "ex_scraper =
     \<lparr>p_siakadUrl = ''https://siakad.example'', p_lmsUrl = ''https://lms.example'',
      p_nim = ''1234567'', p_password = ''secret'', p_page = None\<rparr>"

definition ex_html :: string where
  "ex_html = ''<html><body>Meeting 1: Week 1</body></html>''"

definition ex_scraper_deps :: "string Meeting list ScraperDeps" where
  "ex_scraper_deps =
     \<lparr>browser_getFirstPage = Inr 0,
      browser_newPage = (\<lambda>url. Inr 1),
      page_visit = (\<lambda>pg url. Inr ()),
      page_insert = (\<lambda>pg selector v. Inr ()),
      page_clickButton = (\<lambda>pg selector useNativeClick. Inr ()),
      page_getAttributesFromElements = (\<lambda>pg selector attribute. Inr [''/course/view.php?id=1234'']),
      page_getContent = (\<lambda>pg. Inr ex_html),
      page_close = (\<lambda>pg. Inr ()),
      collector_collect = (\<lambda>html. Inr [ex_meeting1]),
      stringify = (\<lambda>ms. ''['' @ concat (map title ms) @ '']''),
      storage_put = (\<lambda>key v. Inr ()),
      Date_now = 1700000000000\<rparr>"

section \<open>What the diff loops compute\<close>

text \<open>The modelled comparison of meetings is equality of meetings.\<close>

lemma compareMeeting_iff: "compareMeeting a b = (a = b)"
  by (cases a, cases b) (simp add: compareMeeting_def list_all2_eq [symmetric])

text \<open>One iteration of the lecture loop, and its exit.\<close>

lemma lecturesLoop_step:
  "i < length oldLectures \<Longrightarrow>
   lecturesLoop onAbsent oldLectures newLectures i result =
     (case compareLecture onAbsent (oldLectures ! i) (at_index newLectures i) of
        Inl err \<Rightarrow> Inl err
      | Inr isEqual \<Rightarrow>
          lecturesLoop onAbsent oldLectures newLectures (Suc i)
            (if isEqual then result else result @ [at_index newLectures i]))"
  by (subst lecturesLoop.simps) (simp split: sum.splits)

lemma lecturesLoop_stop:
  "\<not> i < length oldLectures \<Longrightarrow>
   lecturesLoop onAbsent oldLectures newLectures i result = Inr result"
  by (subst lecturesLoop.simps) simp

text \<open>
  While the new list is at least as long as the old one every read is in range: no absent
  value is compared, nothing throws, and the loop appends the new lecture wherever it
  differs from the old one, in ascending index order. The inductions are on the number of
  iterations left.
\<close>

lemma lecturesLoop_in_range:
  "length oldLectures \<le> length newLectures \<Longrightarrow>
   lecturesLoop onAbsent oldLectures newLectures i result =
     Inr (result @ map (\<lambda>j. Some (newLectures ! j))
            (filter (\<lambda>j. oldLectures ! j \<noteq> newLectures ! j) [i..<length oldLectures]))"
proof (induction "length oldLectures - i" arbitrary: i result)
  case 0
  then show ?case by (simp add: lecturesLoop_stop)
next
  case (Suc n)
  then have lt: "i < length oldLectures" and n: "n = length oldLectures - Suc i"
    by simp_all
  have upt: "[i..<length oldLectures] = i # [Suc i..<length oldLectures]"
    using lt by (simp add: upt_conv_Cons)
  have cmp: "compareLecture onAbsent (oldLectures ! i) (at_index newLectures i) =
               Inr (oldLectures ! i = newLectures ! i)"
    using lt Suc.prems by (simp add: compareLecture_def at_index_def)
  show ?case
    unfolding lecturesLoop_step [OF lt] cmp Suc.hyps(1) [OF n Suc.prems] upt
    using lt Suc.prems by (simp add: at_index_def)
qed



lemma getLecturesDiff_not_shorter:
  assumes "length (lectures oldMeeting) \<le> length (lectures newMeeting)"
  shows "getLecturesDiff onAbsent oldMeeting newMeeting =
     Inr (map Some (drop (length (lectures oldMeeting)) (lectures newMeeting)) @
          map (\<lambda>j. Some (lectures newMeeting ! j))
            (filter (\<lambda>j. lectures oldMeeting ! j \<noteq> lectures newMeeting ! j)
               [0..<length (lectures oldMeeting)]))"
  using assms
  by (simp add: getLecturesDiff_def lecturesLoop_in_range slice_from_def Let_def)


lemma getLecturesDiff_same: "getLecturesDiff onAbsent m m = Inr []"
  by (simp add: getLecturesDiff_not_shorter)

text \<open>The same for the meeting loop.\<close>

lemma meetingsLoop_step:
  "i < length slicedMeetings \<Longrightarrow>
   meetingsLoop onAbsent oldMeetings slicedMeetings i result =
     (case getLecturesDiff onAbsent (oldMeetings ! i) (slicedMeetings ! i) of
        Inl err \<Rightarrow> Inl err
      | Inr lecturesDiff \<Rightarrow>
          meetingsLoop onAbsent oldMeetings slicedMeetings (Suc i)
            (if isChanged (oldMeetings ! i) (slicedMeetings ! i) lecturesDiff
             then result @ [changedMeeting (slicedMeetings ! i) lecturesDiff]
             else result))"
  by (subst meetingsLoop.simps)
     (simp add: isChanged_def changedMeeting_def Let_def split: sum.splits)

lemma meetingsLoop_stop:
  "\<not> i < length slicedMeetings \<Longrightarrow>
   meetingsLoop onAbsent oldMeetings slicedMeetings i result = Inr result"
  by (subst meetingsLoop.simps) simp

lemma meetingsLoop_closed:
  "meetingsLoop onAbsent oldMeetings slicedMeetings i result =
     (case find (\<lambda>j. isl (getLecturesDiff onAbsent (oldMeetings ! j) (slicedMeetings ! j)))
             [i..<length slicedMeetings] of
        Some j \<Rightarrow> Inl (projl (getLecturesDiff onAbsent (oldMeetings ! j) (slicedMeetings ! j)))
      | None \<Rightarrow>
          Inr (result @
               map (\<lambda>j. changedMeeting (slicedMeetings ! j)
                          (projr (getLecturesDiff onAbsent (oldMeetings ! j) (slicedMeetings ! j))))
                 (filter (\<lambda>j. isChanged (oldMeetings ! j) (slicedMeetings ! j)
                          (projr (getLecturesDiff onAbsent (oldMeetings ! j) (slicedMeetings ! j))))
                    [i..<length slicedMeetings])))"
proof (induction "length slicedMeetings - i" arbitrary: i result)
  case 0
  then show ?case by (simp add: meetingsLoop_stop)
next
  case (Suc n)
  then have lt: "i < length slicedMeetings" and n: "n = length slicedMeetings - Suc i"
    by simp_all
  have upt: "[i..<length slicedMeetings] = i # [Suc i..<length slicedMeetings]"
    using lt by (simp add: upt_conv_Cons)
  show ?case
    unfolding meetingsLoop_step [OF lt] Suc.hyps(1) [OF n] upt
    by (cases "getLecturesDiff onAbsent (oldMeetings ! i) (slicedMeetings ! i)")
       (auto split: option.splits)
qed

lemma find_False: "find (\<lambda>j. False) xs = None"
  by (induction xs) simp_all

lemma find_in_set: "find P xs = Some x \<Longrightarrow> x \<in> set xs"
  by (induction xs) (auto split: if_splits)

lemma case_find_cong:
  "(\<And>j. j \<in> set xs \<Longrightarrow> f j = g j) \<Longrightarrow>
   (case find P xs of None \<Rightarrow> a | Some j \<Rightarrow> f j) =
   (case find P xs of None \<Rightarrow> a | Some j \<Rightarrow> g j)"
  by (auto split: option.splits dest: find_in_set)

lemma getMeetingsDiff_closed:
  "getMeetingsDiff onAbsent oldSubject newSubject =
     (case find (\<lambda>j. isl (getLecturesDiff onAbsent (meetings oldSubject ! j)
                            (meetings newSubject ! j)))
             [0..<min (length (meetings oldSubject)) (length (meetings newSubject))] of
        Some j \<Rightarrow>
          Inl (projl (getLecturesDiff onAbsent (meetings oldSubject ! j)
                        (meetings newSubject ! j)))
      | None \<Rightarrow>
          Inr (map verbatim (drop (length (meetings oldSubject)) (meetings newSubject)) @
               map (\<lambda>j. changedMeeting (meetings newSubject ! j)
                          (projr (getLecturesDiff onAbsent (meetings oldSubject ! j)
                                    (meetings newSubject ! j))))
                 (filter (\<lambda>j. isChanged (meetings oldSubject ! j) (meetings newSubject ! j)
                          (projr (getLecturesDiff onAbsent (meetings oldSubject ! j)
                                    (meetings newSubject ! j))))
                    [0..<min (length (meetings oldSubject)) (length (meetings newSubject))])))"
proof -
  let ?olds = "meetings oldSubject" and ?news = "meetings newSubject"
  let ?shared = "[0..<min (length ?olds) (length ?news)]"
  let ?sliced = "take (length ?olds) ?news"
  have nth: "\<And>j. j \<in> set ?shared \<Longrightarrow> ?sliced ! j = ?news ! j"
    by simp
  have found: "find (\<lambda>j. isl (getLecturesDiff onAbsent (?olds ! j) (?sliced ! j))) ?shared =
               find (\<lambda>j. isl (getLecturesDiff onAbsent (?olds ! j) (?news ! j))) ?shared"
    by (rule find_cong) (simp_all del: set_upt add: nth)
  have kept: "filter (\<lambda>j. isChanged (?olds ! j) (?sliced ! j)
                  (projr (getLecturesDiff onAbsent (?olds ! j) (?sliced ! j)))) ?shared =
              filter (\<lambda>j. isChanged (?olds ! j) (?news ! j)
                  (projr (getLecturesDiff onAbsent (?olds ! j) (?news ! j)))) ?shared"
    by (rule filter_cong) (simp_all del: set_upt add: nth)
  have pushed: "map (\<lambda>j. changedMeeting (?sliced ! j)
                  (projr (getLecturesDiff onAbsent (?olds ! j) (?sliced ! j))))
                  (filter (\<lambda>j. isChanged (?olds ! j) (?news ! j)
                     (projr (getLecturesDiff onAbsent (?olds ! j) (?news ! j)))) ?shared) =
                map (\<lambda>j. changedMeeting (?news ! j)
                  (projr (getLecturesDiff onAbsent (?olds ! j) (?news ! j))))
                  (filter (\<lambda>j. isChanged (?olds ! j) (?news ! j)
                     (projr (getLecturesDiff onAbsent (?olds ! j) (?news ! j)))) ?shared)"
    by (rule map_cong) (simp_all del: set_upt add: nth)
  have len: "length ?sliced = min (length ?olds) (length ?news)"
    by (simp add: min.commute)
  have thrown: "(case find (\<lambda>j. isl (getLecturesDiff onAbsent (?olds ! j) (?news ! j))) ?shared of
                   None \<Rightarrow> a
                 | Some j \<Rightarrow> Inl (projl (getLecturesDiff onAbsent (?olds ! j) (?sliced ! j)))) =
                (case find (\<lambda>j. isl (getLecturesDiff onAbsent (?olds ! j) (?news ! j))) ?shared of
                   None \<Rightarrow> a
                 | Some j \<Rightarrow> Inl (projl (getLecturesDiff onAbsent (?olds ! j) (?news ! j))))"
    for a :: "js_thrown + 'a option Meeting list"
    by (rule case_find_cong) (simp del: set_upt add: nth)
  show ?thesis
    unfolding getMeetingsDiff_def Let_def slice_upto_def slice_from_def meetingsLoop_closed
      len found kept pushed thrown
    by (simp cong: option.case_cong)
qed

lemma filter_index_upt: "k < n \<Longrightarrow> filter (\<lambda>j. j = k) [0..<n] = [k]"
  by (induction n) (auto simp: less_Suc_eq filter_empty_conv)

text \<open>Facts for evaluating the models on the concrete inputs.\<close>

lemma andThen_simps:
  "andThen (trace, Inl err) rest = (trace, Inl err)"
  "andThen (trace, Inr v) rest = (trace @ fst (rest v), snd (rest v))"
  by (simp_all add: andThen_def split: prod.splits)

lemma tryCatch_simps:
  "tryCatch (trace, Inr v) handler = (trace, Inr v)"
  "tryCatch (trace, Inl err) handler = (trace @ fst (handler err), snd (handler err))"
  by (simp_all add: tryCatch_def split: prod.splits)

lemma upt_2: "[0..<2] = [0, 1]"
  by (simp add: upt_rec)

lemma upt_3: "[0..<3] = [0, 1, 2]"
  by (simp add: upt_rec)

lemmas effect_defs = call_def resolved_def rejected_def andThen_simps tryCatch_simps

lemmas ex_defs = ex_meeting1_def ex_meeting1_updated_def ex_meeting2_def ex_meeting3_def
  ex_meeting3_updated_def ex_meeting3_shrunk_def ex_meeting3_grown_def ex_subject_old_def
  ex_subject_grown_def ex_subject_retitled_def ex_subject_grown_retitled_def
  ex_absent_throws_def ex_absent_unequal_def

lemmas diff_eval = getMeetingsDiff_def meetingsLoop.simps getLecturesDiff_def
  lecturesLoop.simps compareMeeting_def compareLecture_def at_index_def slice_from_def
  slice_upto_def verbatim_def changedMeeting_def isChanged_def Let_def

section \<open>Diff engine: the claims\<close>

text \<open>
  Claim C6. The diff of a Subject against an identical copy of itself is the empty
  sequence: no meeting is reported as changed or new. The same holds one level down, for
  the lecture diff of a Meeting against itself. No absent value is compared on the way,
  so this holds whatever the comparison does with one.
\<close>

theorem diff_identical_empty:
  "getMeetingsDiff onAbsent s s = Inr [] \<and> getLecturesDiff onAbsent m m = Inr []"
  by (simp add: getMeetingsDiff_closed getLecturesDiff_same find_False isChanged_def
      compareMeeting_iff)

text \<open>
  Claim C5. If the meetings of the new Subject are the meetings of the old Subject followed
  by zero or more appended meetings, with nothing changed inside the shared ones, then the
  diff returns exactly the appended meetings, each as it is, and so its length is the
  number of meetings of the new Subject minus the number of meetings of the old one.
\<close>

theorem diff_prefix_extension:
  assumes "meetings newSubject = meetings oldSubject @ appended"
  shows "\<exists>diff. getMeetingsDiff onAbsent oldSubject newSubject = Inr diff \<and>
           diff = map verbatim appended \<and>
           length diff = length (meetings newSubject) - length (meetings oldSubject)"
proof -
  let ?olds = "meetings oldSubject"
  have same: "getLecturesDiff onAbsent (?olds ! j) ((?olds @ appended) ! j) = Inr []"
    if "j \<in> set [0..<length ?olds]" for j
    using that by (simp add: nth_append getLecturesDiff_same)
  have none: "find (\<lambda>j. isl (getLecturesDiff onAbsent (?olds ! j) ((?olds @ appended) ! j)))
                [0..<length ?olds] = None"
    using same by (simp add: find_None_iff)
  have kept: "filter (\<lambda>j. isChanged (?olds ! j) ((?olds @ appended) ! j)
                  (projr (getLecturesDiff onAbsent (?olds ! j) ((?olds @ appended) ! j))))
                [0..<length ?olds] = []"
    using same by (simp add: filter_empty_conv nth_append isChanged_def compareMeeting_iff)
  show ?thesis
    using assms by (simp add: getMeetingsDiff_closed none kept)
qed

text \<open>
  Scenario A of the specification: two meetings with one lecture each, then a third
  meeting with two lectures is appended. The diff is the third meeting, whole.
\<close>

theorem diff_prefix_extension_witness:
  "meetings ex_subject_grown = meetings ex_subject_old @ [ex_meeting3] \<and>
   getMeetingsDiff ex_absent_throws ex_subject_old ex_subject_grown =
     Inr [\<lparr>subject = ''Algorithms'', title = ''Meeting 3'',
            lectures = [Some ''Week 3 slides'', Some ''Week 3 quiz'']\<rparr>] \<and>
   length (meetings ex_subject_grown) - length (meetings ex_subject_old) = 1"
proof -
  have ext: "meetings ex_subject_grown = meetings ex_subject_old @ [ex_meeting3]"
    by (simp add: ex_subject_grown_def ex_subject_old_def)
  have one: "length (meetings ex_subject_grown) - length (meetings ex_subject_old) = 1"
    by (simp add: ex_subject_grown_def ex_subject_old_def)
  show ?thesis
    using ext one diff_prefix_extension [OF ext, of ex_absent_throws]
    by (simp add: verbatim_def ex_meeting3_def)
qed

text \<open>
  Claim C7, as the code has it. Let the new Meeting have at least as many lectures as
  the old one, let the lectures at one index \<open>k\<close> below the old length differ, and let the
  lectures at every other index below the old length be equal. Then the lecture diff
  returns the lectures of the new Meeting from the old length on, in order, followed by
  the lecture at index \<open>k\<close> of the new Meeting. It is the one-element sequence holding that
  lecture exactly when the two Meetings have the same number of lectures.
\<close>

theorem diffLectures_single_change:
  assumes len: "length (lectures oldMeeting) \<le> length (lectures newMeeting)"
    and k: "k < length (lectures oldMeeting)"
    and differs: "lectures newMeeting ! k \<noteq> lectures oldMeeting ! k"
    and others: "\<forall>i < length (lectures oldMeeting). i \<noteq> k \<longrightarrow>
                   lectures newMeeting ! i = lectures oldMeeting ! i"
  shows "getLecturesDiff onAbsent oldMeeting newMeeting =
           Inr (map Some (drop (length (lectures oldMeeting)) (lectures newMeeting)) @
                [Some (lectures newMeeting ! k)]) \<and>
         (getLecturesDiff onAbsent oldMeeting newMeeting = Inr [Some (lectures newMeeting ! k)]
            \<longleftrightarrow> length (lectures newMeeting) = length (lectures oldMeeting))"
proof -
  let ?n = "length (lectures oldMeeting)"
  have "filter (\<lambda>j. lectures oldMeeting ! j \<noteq> lectures newMeeting ! j) [0..<?n]
        = filter (\<lambda>j. j = k) [0..<?n]"
    using differs others by (intro filter_cong refl) auto
  also have "\<dots> = [k]"
    using k by (rule filter_index_upt)
  finally have eq: "getLecturesDiff onAbsent oldMeeting newMeeting =
           Inr (map Some (drop ?n (lectures newMeeting)) @ [Some (lectures newMeeting ! k)])"
    using len by (simp add: getLecturesDiff_not_shorter)
  have "drop ?n (lectures newMeeting) = [] \<longleftrightarrow> length (lectures newMeeting) = ?n"
    using len by auto
  with eq show ?thesis by simp
qed

text \<open>
  The third meeting with its first lecture replaced and a third lecture appended: the
  diff is the appended lecture, then the replaced one. And the third meeting with only
  its second lecture retitled: the diff is that lecture alone.
\<close>

theorem diffLectures_single_change_witness:
  "length (lectures ex_meeting3) \<le> length (lectures ex_meeting3_grown) \<and>
   0 < length (lectures ex_meeting3) \<and>
   lectures ex_meeting3_grown ! 0 \<noteq> lectures ex_meeting3 ! 0 \<and>
   lectures ex_meeting3_grown ! 1 = lectures ex_meeting3 ! 1 \<and>
   getLecturesDiff ex_absent_throws ex_meeting3 ex_meeting3_grown =
     Inr [Some ''Week 3 notes'', Some ''Week 3 slides (v2)''] \<and>
   length (lectures ex_meeting3_updated) = length (lectures ex_meeting3) \<and>
   lectures ex_meeting3_updated ! 1 \<noteq> lectures ex_meeting3 ! 1 \<and>
   lectures ex_meeting3_updated ! 0 = lectures ex_meeting3 ! 0 \<and>
   getLecturesDiff ex_absent_throws ex_meeting3 ex_meeting3_updated =
     Inr [Some ''Week 3 quiz (due Friday)'']"
proof -
  have len: "length (lectures ex_meeting3) \<le> length (lectures ex_meeting3_grown)"
    and k: "0 < length (lectures ex_meeting3)"
    and differs: "lectures ex_meeting3_grown ! 0 \<noteq> lectures ex_meeting3 ! 0"
    and second: "lectures ex_meeting3_grown ! 1 = lectures ex_meeting3 ! 1"
    by (simp_all add: ex_meeting3_def ex_meeting3_grown_def)
  have others: "\<forall>i < length (lectures ex_meeting3). i \<noteq> 0 \<longrightarrow>
                  lectures ex_meeting3_grown ! i = lectures ex_meeting3 ! i"
    by (simp add: ex_meeting3_def ex_meeting3_grown_def less_Suc_eq numeral_2_eq_2)
  have len': "length (lectures ex_meeting3) \<le> length (lectures ex_meeting3_updated)"
    and same_len: "length (lectures ex_meeting3_updated) = length (lectures ex_meeting3)"
    and k': "1 < length (lectures ex_meeting3)"
    and differs': "lectures ex_meeting3_updated ! 1 \<noteq> lectures ex_meeting3 ! 1"
    and first': "lectures ex_meeting3_updated ! 0 = lectures ex_meeting3 ! 0"
    by (simp_all add: ex_meeting3_def ex_meeting3_updated_def)
  have others': "\<forall>i < length (lectures ex_meeting3). i \<noteq> 1 \<longrightarrow>
                   lectures ex_meeting3_updated ! i = lectures ex_meeting3 ! i"
    by (simp add: ex_meeting3_def ex_meeting3_updated_def less_Suc_eq numeral_2_eq_2)
  have grown: "getLecturesDiff ex_absent_throws ex_meeting3 ex_meeting3_grown =
                 Inr [Some ''Week 3 notes'', Some ''Week 3 slides (v2)'']"
    using diffLectures_single_change [OF len k differs others, of ex_absent_throws]
    by (simp add: ex_meeting3_def ex_meeting3_grown_def)
  have updated: "getLecturesDiff ex_absent_throws ex_meeting3 ex_meeting3_updated =
                   Inr [Some ''Week 3 quiz (due Friday)'']"
    using diffLectures_single_change [OF len' k' differs' others', of ex_absent_throws]
    by (simp add: ex_meeting3_def ex_meeting3_updated_def)
  show ?thesis
    using len k differs second same_len differs' first' grown updated by simp
qed

text \<open>
  Claim C7, as stated, fails. The old Meeting has two lectures and the new one three; only
  the lecture at index 0, below both lengths, differs, and the other shared lecture is
  equal. The lecture diff is not the sequence holding just the lecture at index 0 of the
  new Meeting: the appended lecture comes first.
\<close>

theorem diffLectures_single_change_not_alone:
  "0 < min (length (lectures ex_meeting3)) (length (lectures ex_meeting3_grown)) \<and>
   lectures ex_meeting3_grown ! 0 \<noteq> lectures ex_meeting3 ! 0 \<and>
   lectures ex_meeting3_grown ! 1 = lectures ex_meeting3 ! 1 \<and>
   getLecturesDiff ex_absent_throws ex_meeting3 ex_meeting3_grown =
     Inr [Some ''Week 3 notes'', Some ''Week 3 slides (v2)''] \<and>
   getLecturesDiff ex_absent_unequal ex_meeting3 ex_meeting3_grown =
     Inr [Some ''Week 3 notes'', Some ''Week 3 slides (v2)''] \<and>
   getLecturesDiff ex_absent_throws ex_meeting3 ex_meeting3_grown \<noteq>
     Inr [Some (lectures ex_meeting3_grown ! 0)]"
  by (simp add: ex_defs diff_eval)




text \<open>
  Claim C3, as the code has it. Unless a lecture diff throws, the meetings diff lists first
  the wholly-new meetings (those at indices from the old length on), in ascending index
  order and as they are, and only then the changed meetings at the indices below the old
  length, in ascending index order. So a wholly-new meeting precedes every changed
  meeting, not the other way round. If the lecture diff of a pair of meetings throws, the
  meetings diff throws what the first such lecture diff throws.
\<close>

theorem meetingsDiff_new_before_changed:
  "getMeetingsDiff onAbsent oldSubject newSubject =
     (case find (\<lambda>j. isl (getLecturesDiff onAbsent (meetings oldSubject ! j)
                            (meetings newSubject ! j)))
             [0..<min (length (meetings oldSubject)) (length (meetings newSubject))] of
        Some j \<Rightarrow>
          Inl (projl (getLecturesDiff onAbsent (meetings oldSubject ! j)
                        (meetings newSubject ! j)))
      | None \<Rightarrow>
          Inr (map verbatim (drop (length (meetings oldSubject)) (meetings newSubject)) @
               map (\<lambda>j. changedMeeting (meetings newSubject ! j)
                          (projr (getLecturesDiff onAbsent (meetings oldSubject ! j)
                                    (meetings newSubject ! j))))
                 (filter (\<lambda>j. isChanged (meetings oldSubject ! j) (meetings newSubject ! j)
                          (projr (getLecturesDiff onAbsent (meetings oldSubject ! j)
                                    (meetings newSubject ! j))))
                    [0..<min (length (meetings oldSubject)) (length (meetings newSubject))])))"
  by (rule getMeetingsDiff_closed)

text \<open>
  Claim C3, as stated, fails. The old snapshot has two meetings; the new one retitles the
  lecture of the meeting at index 0 and appends a meeting at index 2. The diff puts the new
  meeting of index 2 before the changed meeting of index 0, while ascending index order
  is the reverse.
\<close>

theorem meetingsDiff_not_ascending:
  "getMeetingsDiff ex_absent_throws ex_subject_old ex_subject_grown_retitled =
     Inr [\<lparr>subject = ''Algorithms'', title = ''Meeting 3'',
            lectures = [Some ''Week 3 slides'', Some ''Week 3 quiz'']\<rparr>,
          \<lparr>subject = ''Algorithms'', title = ''Meeting 1'',
            lectures = [Some ''Week 1 (updated)'']\<rparr>] \<and>
   meetingsDiff_ascending ex_absent_throws ex_subject_old ex_subject_grown_retitled =
     Inr [\<lparr>subject = ''Algorithms'', title = ''Meeting 1'',
            lectures = [Some ''Week 1 (updated)'']\<rparr>,
          \<lparr>subject = ''Algorithms'', title = ''Meeting 3'',
            lectures = [Some ''Week 3 slides'', Some ''Week 3 quiz'']\<rparr>] \<and>
   getMeetingsDiff ex_absent_throws ex_subject_old ex_subject_grown_retitled \<noteq>
     meetingsDiff_ascending ex_absent_throws ex_subject_old ex_subject_grown_retitled"
proof -
  have code: "getMeetingsDiff ex_absent_throws ex_subject_old ex_subject_grown_retitled =
     Inr [\<lparr>subject = ''Algorithms'', title = ''Meeting 3'',
            lectures = [Some ''Week 3 slides'', Some ''Week 3 quiz'']\<rparr>,
          \<lparr>subject = ''Algorithms'', title = ''Meeting 1'',
            lectures = [Some ''Week 1 (updated)'']\<rparr>]"
    by (simp add: ex_defs diff_eval)
  have words: "meetingsDiff_ascending ex_absent_throws ex_subject_old ex_subject_grown_retitled =
     Inr [\<lparr>subject = ''Algorithms'', title = ''Meeting 1'',
            lectures = [Some ''Week 1 (updated)'']\<rparr>,
          \<lparr>subject = ''Algorithms'', title = ''Meeting 3'',
            lectures = [Some ''Week 3 slides'', Some ''Week 3 quiz'']\<rparr>]"
    by (simp add: meetingsDiff_ascending_def upt_2 upt_3 ex_defs diff_eval)
  show ?thesis
    unfolding code words by simp
qed

section \<open>Orchestrator: the claims\<close>

text \<open>
  Two facts about line 105, for any collaborators and any subject. When the lookup throws,
  or answers \<^verbatim>\<open>null\<close> because there is no snapshot yet, the task ends there: the store's
  \<^verbatim>\<open>put\<close> is never called.
\<close>

lemma lookup_throws_no_put:
  assumes "HYSBYSU_STORAGE_get deps (subjectKey subj) = Inl err"
  shows "KV_put key v \<notin> set (fst (diffingTask deps subj))"
proof (cases err)
  case (JsError message)
  with assms show ?thesis
    by (cases "webhook_error deps
                 (''Failed to get old data for: '' @ courseId subj @ ''. Reason: '' @ message)")
       (simp_all add: diffingTask_def getOldSubjectString_def effect_defs)
next
  case JsOther
  with assms show ?thesis
    by (simp add: diffingTask_def getOldSubjectString_def effect_defs)
qed

lemma lookup_null_no_put:
  assumes "HYSBYSU_STORAGE_get deps (subjectKey subj) = Inr None"
  shows "diffingTask deps subj = ([KV_get (subjectKey subj)], Inr ())"
  using assms by (simp add: diffingTask_def getOldSubjectString_def effect_defs)

text \<open>
  Claim C1, evaluated. The store's \<^verbatim>\<open>get\<close> throws for course \<^verbatim>\<open>CS101\<close>. The task logs the
  message, dispatches the error notification naming \<^verbatim>\<open>CS101\<close>, makes no diff and no
  change notification, and resolves. It does not call \<^verbatim>\<open>put\<close>: the new Subject is not
  persisted under \<^verbatim>\<open>subject_CS101\<close>.
\<close>

theorem lookup_failure_not_persisted:
  "diffingTask ex_worker_deps_get_throws ex_subject_retitled =
     ([KV_get ''subject_CS101'', Logger_error ''KV unavailable'',
       Webhook_error ''Failed to get old data for: CS101. Reason: KV unavailable''],
      Inr ()) \<and>
   KV_put ''subject_CS101'' (JSON_stringify ex_worker_deps_get_throws ex_subject_retitled)
     \<notin> set (fst (diffingTask ex_worker_deps_get_throws ex_subject_retitled))"
proof -
  have run: "diffingTask ex_worker_deps_get_throws ex_subject_retitled =
     ([KV_get ''subject_CS101'', Logger_error ''KV unavailable'',
       Webhook_error ''Failed to get old data for: CS101. Reason: KV unavailable''],
      Inr ())"
    by (simp add: diffingTask_def getOldSubjectString_def subjectKey_def
        ex_worker_deps_get_throws_def ex_worker_deps_def ex_subject_retitled_def effect_defs)
  show ?thesis
    unfolding run by simp
qed

text \<open>
  Claim C2, as the code has it. Take a collected Subject whose stored snapshot is found (the
  lookup answers a string) and parses, and whose diff and notification step (lines
  108--120) does not throw. Then the task calls the store's \<^verbatim>\<open>put\<close> with the key
  \<^verbatim>\<open>subject_<courseId>\<close> and the serialized new Subject, right after that step, whatever
  the diff was and whether or not a notification was sent.
\<close>

theorem snapshot_put_after_notification:
  assumes found: "HYSBYSU_STORAGE_get deps (subjectKey subj) = Inr (Some str)"
    and parsed: "JSON_parse deps str = Inr oldSubject"
    and notified: "snd (notifyChanges deps subj oldSubject) = Inr ()"
  shows "\<exists>rest. fst (diffingTask deps subj) =
           KV_get (''subject_'' @ courseId subj) # fst (notifyChanges deps subj oldSubject) @
           KV_put (''subject_'' @ courseId subj) (JSON_stringify deps subj) # rest"
proof -
  obtain trace where notify: "notifyChanges deps subj oldSubject = (trace, Inr ())"
    using notified by (cases "notifyChanges deps subj oldSubject") auto
  obtain rest where put:
    "fst (putNewSubject deps subj) =
       KV_put (''subject_'' @ courseId subj) (JSON_stringify deps subj) # rest"
    by (cases "HYSBYSU_STORAGE_put deps (subjectKey subj) (JSON_stringify deps subj)")
       (simp_all add: putNewSubject_def subjectKey_def effect_defs)
  have "fst (diffingTask deps subj) =
          KV_get (''subject_'' @ courseId subj) # trace @ fst (putNewSubject deps subj)"
    using found parsed notify
    by (simp add: diffingTask_def getOldSubjectString_def subjectKey_def effect_defs)
  then show ?thesis
    using notify put by simp
qed

text \<open>
  A run with a stored snapshot and working collaborators: the retitled lecture is notified,
  then the new snapshot is put.
\<close>

theorem snapshot_put_after_notification_witness:
  "HYSBYSU_STORAGE_get ex_worker_deps (subjectKey ex_subject_retitled) =
     Inr (Some ''stored CS101'') \<and>
   JSON_parse ex_worker_deps ''stored CS101'' = Inr (Some ex_subject_old) \<and>
   snd (notifyChanges ex_worker_deps ex_subject_retitled (Some ex_subject_old)) = Inr () \<and>
   (\<exists>rest. fst (diffingTask ex_worker_deps ex_subject_retitled) =
      KV_get ''subject_CS101'' #
      fst (notifyChanges ex_worker_deps ex_subject_retitled (Some ex_subject_old)) @
      KV_put ''subject_CS101'' ''snapshot of CS101'' # rest)"
proof -
  have found: "HYSBYSU_STORAGE_get ex_worker_deps (subjectKey ex_subject_retitled) =
      Inr (Some ''stored CS101'')"
    by (simp add: ex_worker_deps_def subjectKey_def ex_subject_retitled_def)
  have parsed: "JSON_parse ex_worker_deps ''stored CS101'' = Inr (Some ex_subject_old)"
    by (simp add: ex_worker_deps_def)
  have notified:
    "snd (notifyChanges ex_worker_deps ex_subject_retitled (Some ex_subject_old)) = Inr ()"
    by (simp add: notifyChanges_def ex_worker_deps_def ex_defs diff_eval effect_defs)
  have key: "courseId ex_subject_retitled = ''CS101''"
    and val: "JSON_stringify ex_worker_deps ex_subject_retitled = ''snapshot of CS101''"
    by (simp_all add: ex_worker_deps_def ex_subject_retitled_def)
  show ?thesis
    using found parsed notified snapshot_put_after_notification [OF found parsed notified]
    by (simp add: key val)
qed

text \<open>
  Claim C2, as stated, fails. A snapshot is stored, the new Subject differs from it, and the
  webhook's \<^verbatim>\<open>notify\<close> throws: the task rejects at the notification and never calls
  \<^verbatim>\<open>put\<close>, so the new Subject is not persisted.
\<close>

theorem notification_failure_not_persisted:
  "diffingTask ex_worker_deps_notify_throws ex_subject_retitled =
     ([KV_get ''subject_CS101'',
       Webhook_notify
         \<lparr>courseId = ''CS101'',
          meetings = [\<lparr>subject = ''Algorithms'', title = ''Meeting 1'',
                       lectures = [Some ''Week 1 (updated)'']\<rparr>]\<rparr>],
      Inl (JsError ''webhook down'')) \<and>
   KV_put ''subject_CS101'' (JSON_stringify ex_worker_deps_notify_throws ex_subject_retitled)
     \<notin> set (fst (diffingTask ex_worker_deps_notify_throws ex_subject_retitled))"
proof -
  have run: "diffingTask ex_worker_deps_notify_throws ex_subject_retitled =
     ([KV_get ''subject_CS101'',
       Webhook_notify
         \<lparr>courseId = ''CS101'',
          meetings = [\<lparr>subject = ''Algorithms'', title = ''Meeting 1'',
                       lectures = [Some ''Week 1 (updated)'']\<rparr>]\<rparr>],
      Inl (JsError ''webhook down''))"
    by (simp add: diffingTask_def getOldSubjectString_def notifyChanges_def subjectKey_def
        ex_worker_deps_notify_throws_def ex_worker_deps_def ex_defs diff_eval effect_defs)
  show ?thesis
    unfolding run by simp
qed

section \<open>Session acquisition: the claims\<close>

text \<open>
  Claim C9. The constructor raises a validation error exactly when at least one of the
  options \<^verbatim>\<open>siakadUrl\<close>, \<^verbatim>\<open>lmsUrl\<close>, \<^verbatim>\<open>nim\<close>, \<^verbatim>\<open>password\<close> is the empty string, and
  otherwise returns a scraper. In either case it calls no collaborator: no browser, page,
  storage or collector operation is in its trace.
\<close>

theorem constructor_validation:
  "fst (Scraper_constructor options) = [] \<and>
   ((\<exists>name. snd (Scraper_constructor options) = Inl (ValidationError name)) \<longleftrightarrow>
      (siakadUrl options = '''' \<or> lmsUrl options = '''' \<or> nim options = '''' \<or>
       password options = '''')) \<and>
   ((\<exists>this. snd (Scraper_constructor options) = Inr this) \<longleftrightarrow>
      \<not> (siakadUrl options = '''' \<or> lmsUrl options = '''' \<or> nim options = '''' \<or>
         password options = ''''))"
  by (simp add: Scraper_constructor_def rejected_def resolved_def)

text \<open>The constructor leaves the page handle unset.\<close>

lemma constructor_no_page:
  "Scraper_constructor options = (trace, Inr this) \<Longrightarrow> p_page this = None"
  by (auto simp: Scraper_constructor_def rejected_def resolved_def split: if_splits)

lemma constructor_example: "Scraper_constructor ex_options = ([], Inr ex_scraper)"
  by (simp add: Scraper_constructor_def ex_options_def ex_scraper_def resolved_def)

text \<open>
  Claim C8. If \<^verbatim>\<open>login\<close> is invoked while the scraper has no page handle, it raises the
  not-initialized error that names \<^verbatim>\<open>this._page\<close>, and its trace is empty: no visit,
  insert or click, nor any other collaborator call, is made.
\<close>

theorem login_without_page:
  assumes "p_page this = None"
  shows "login deps this = ([], Inl (NotInitializedError ''this._page''))"
  using assms by (simp add: login_def rejected_def)

text \<open>The scraper as constructed, before any \<^verbatim>\<open>init\<close>.\<close>

theorem login_without_page_witness:
  "p_page ex_scraper = None \<and>
   login ex_scraper_deps ex_scraper = ([], Inl (NotInitializedError ''this._page''))"
proof -
  have none: "p_page ex_scraper = None"
    by (simp add: ex_scraper_def)
  show ?thesis
    using none login_without_page [OF none] by simp
qed

text \<open>What \<^verbatim>\<open>Promise.all\<close> answers: it resolves exactly when no task rejects.\<close>

lemma Promise_all_resolves_iff:
  "Promise_all tasks = Inr () \<longleftrightarrow> (\<forall>task \<in> set tasks. \<not> isl (snd task))"
  by (simp add: Promise_all_def list_ex_iff)

lemma savePageSnapshots_resolves_iff:
  assumes "p_page this = Some landing"
    and "page_getAttributesFromElements deps landing LECTURE_URL ''href'' = Inr urls"
  shows "snd (snd (savePageSnapshots deps this)) = Inr () \<longleftrightarrow>
         (\<forall>url \<in> set urls. \<not> isl (snd (snapshotTask deps this (Date_now deps) url)))"
  using assms by (simp add: savePageSnapshots_def answer_def Promise_all_resolves_iff)

text \<open>
  Claim C4, as the code has it. With a page handle and the lecture links read, the step
  starts one task per discovered URL, all with the one timestamp of the run, and resolves
  or rejects as \<^verbatim>\<open>Promise.all\<close> of these tasks does. For a URL whose page is opened,
  visited, read and collected without a failure, the task calls the audit store's
  \<^verbatim>\<open>put\<close> with the key \<^verbatim>\<open><runTimestamp>_<last 4 characters of the URL>\<close>; the value is
  the serialization of what the collector made of the page's content, not the raw
  content.
\<close>

theorem snapshot_stores_collected_meetings:
  assumes ready: "p_page this = Some landing"
    and links: "page_getAttributesFromElements deps landing LECTURE_URL ''href'' = Inr urls"
    and opened: "browser_newPage deps url = Inr pg"
    and visited: "page_visit deps pg (p_lmsUrl this @ url) = Inr ()"
    and content: "page_getContent deps pg = Inr html"
    and collected: "collector_collect deps html = Inr ms"
  shows "savePageSnapshots deps this =
           ([Page_getAttributesFromElements landing LECTURE_URL ''href''],
            map (snapshotTask deps this (Date_now deps)) urls,
            Promise_all (map (snapshotTask deps this (Date_now deps)) urls)) \<and>
         (\<exists>rest. fst (snapshotTask deps this (Date_now deps) url) =
            [Browser_newPage, Page_visit pg (p_lmsUrl this @ url), Page_getContent pg,
             Collector_collect html,
             Storage_put (decimal (Date_now deps) @ ''_'' @ slice_last4 url)
               (stringify deps ms)] @ rest)"
proof -
  have tasks: "savePageSnapshots deps this =
           ([Page_getAttributesFromElements landing LECTURE_URL ''href''],
            map (snapshotTask deps this (Date_now deps)) urls,
            Promise_all (map (snapshotTask deps this (Date_now deps)) urls))"
    using ready links by (simp add: savePageSnapshots_def answer_def)
  have "\<exists>rest. fst (snapshotTask deps this (Date_now deps) url) =
            [Browser_newPage, Page_visit pg (p_lmsUrl this @ url), Page_getContent pg,
             Collector_collect html,
             Storage_put (decimal (Date_now deps) @ ''_'' @ slice_last4 url)
               (stringify deps ms)] @ rest"
    using opened visited content collected
    by (cases "storage_put deps (snapshotKey (Date_now deps) url) (stringify deps ms)")
       (simp_all add: snapshotTask_def snapshotKey_def answer_def effect_defs)
  with tasks show ?thesis by simp
qed

text \<open>
  One lecture link, \<^verbatim>\<open>/course/view.php?id=1234\<close>, at the run timestamp
  \<^verbatim>\<open>1700000000000\<close>, with collaborators that all succeed: the key is
  \<^verbatim>\<open>1700000000000_1234\<close>, the value is the serialized list of collected meetings, and
  the step resolves.
\<close>

theorem snapshot_stores_collected_meetings_witness:
  "p_page (ex_scraper\<lparr>p_page := Some 0\<rparr>) = Some 0 \<and>
   page_getAttributesFromElements ex_scraper_deps 0 LECTURE_URL ''href'' =
     Inr [''/course/view.php?id=1234''] \<and>
   browser_newPage ex_scraper_deps ''/course/view.php?id=1234'' = Inr 1 \<and>
   page_visit ex_scraper_deps 1
     (p_lmsUrl (ex_scraper\<lparr>p_page := Some 0\<rparr>) @ ''/course/view.php?id=1234'') = Inr () \<and>
   page_getContent ex_scraper_deps 1 = Inr ex_html \<and>
   collector_collect ex_scraper_deps ex_html = Inr [ex_meeting1] \<and>
   savePageSnapshots ex_scraper_deps (ex_scraper\<lparr>p_page := Some 0\<rparr>) =
     ([Page_getAttributesFromElements 0 LECTURE_URL ''href''],
      [([Browser_newPage, Page_visit 1 ''https://lms.example/course/view.php?id=1234'',
         Page_getContent 1, Collector_collect ex_html,
         Storage_put ''1700000000000_1234'' ''[Meeting 1]'', Page_close 1], Inr ())],
      Inr ()) \<and>
   (\<exists>rest. fst (snapshotTask ex_scraper_deps (ex_scraper\<lparr>p_page := Some 0\<rparr>) 1700000000000
                ''/course/view.php?id=1234'') =
      [Browser_newPage, Page_visit 1 ''https://lms.example/course/view.php?id=1234'',
       Page_getContent 1, Collector_collect ex_html,
       Storage_put ''1700000000000_1234'' ''[Meeting 1]''] @ rest)"
proof -
  let ?s = "ex_scraper\<lparr>p_page := Some 0\<rparr>"
  let ?url = "''/course/view.php?id=1234''"
  have ready: "p_page ?s = Some 0"
    by simp
  have links: "page_getAttributesFromElements ex_scraper_deps 0 LECTURE_URL ''href'' = Inr [?url]"
    and opened: "browser_newPage ex_scraper_deps ?url = Inr 1"
    and visited: "page_visit ex_scraper_deps 1 (p_lmsUrl ?s @ ?url) = Inr ()"
    and content: "page_getContent ex_scraper_deps 1 = Inr ex_html"
    and collected: "collector_collect ex_scraper_deps ex_html = Inr [ex_meeting1]"
    by (simp_all add: ex_scraper_deps_def)
  have now: "Date_now ex_scraper_deps = 1700000000000"
    and lms: "p_lmsUrl ?s = ''https://lms.example''"
    and json: "stringify ex_scraper_deps [ex_meeting1] = ''[Meeting 1]''"
    by (simp_all add: ex_scraper_deps_def ex_scraper_def ex_meeting1_def)
  have key: "decimal 1700000000000 = ''1700000000000''" "slice_last4 ?url = ''1234''"
    by (simp_all add: decimal.simps digit_def slice_last4_def)
  have task: "snapshotTask ex_scraper_deps ?s 1700000000000 ?url =
      ([Browser_newPage, Page_visit 1 ''https://lms.example/course/view.php?id=1234'',
        Page_getContent 1, Collector_collect ex_html,
        Storage_put ''1700000000000_1234'' ''[Meeting 1]'', Page_close 1], Inr ())"
    by (simp add: snapshotTask_def snapshotKey_def key answer_def effect_defs
        ex_scraper_deps_def ex_scraper_def ex_meeting1_def)
  show ?thesis
    using ready links opened visited content collected
      snapshot_stores_collected_meetings [OF ready links opened visited content collected]
    by (simp add: now lms json key task Promise_all_def)
qed

text \<open>
  Claim C4, as stated, fails. In the same run the raw content of the visited page is never
  put to the audit store: the one \<^verbatim>\<open>put\<close> of the task carries the serialized meetings.
\<close>

theorem snapshot_not_raw_content:
  "fst (snapshotTask ex_scraper_deps (ex_scraper\<lparr>p_page := Some 0\<rparr>) 1700000000000
          ''/course/view.php?id=1234'') =
     [Browser_newPage, Page_visit 1 ''https://lms.example/course/view.php?id=1234'',
      Page_getContent 1, Collector_collect ''<html><body>Meeting 1: Week 1</body></html>'',
      Storage_put ''1700000000000_1234'' ''[Meeting 1]'', Page_close 1] \<and>
   page_getContent ex_scraper_deps 1 = Inr ''<html><body>Meeting 1: Week 1</body></html>'' \<and>
   Storage_put ''1700000000000_1234'' ''<html><body>Meeting 1: Week 1</body></html>''
     \<notin> set (fst (snapshotTask ex_scraper_deps (ex_scraper\<lparr>p_page := Some 0\<rparr>) 1700000000000
                   ''/course/view.php?id=1234''))"
proof -
  have run: "fst (snapshotTask ex_scraper_deps (ex_scraper\<lparr>p_page := Some 0\<rparr>) 1700000000000
          ''/course/view.php?id=1234'') =
     [Browser_newPage, Page_visit 1 ''https://lms.example/course/view.php?id=1234'',
      Page_getContent 1, Collector_collect ''<html><body>Meeting 1: Week 1</body></html>'',
      Storage_put ''1700000000000_1234'' ''[Meeting 1]'', Page_close 1]"
    by (simp add: snapshotTask_def snapshotKey_def slice_last4_def decimal.simps digit_def
        answer_def effect_defs ex_scraper_deps_def ex_scraper_def ex_html_def ex_meeting1_def)
  have raw: "page_getContent ex_scraper_deps 1 =
               Inr ''<html><body>Meeting 1: Week 1</body></html>''"
    by (simp add: ex_scraper_deps_def ex_html_def)
  show ?thesis
    unfolding run raw by simp
qed

end
